theory Spec2Isabelle
  imports Complex_Main "HOL-Library.Word" "HOL-Library.Char_ord" "HOL-Library.List_Lexorder"
    "HOL-Library.Multiset" "HOL-Library.AList"
begin

unbundle bit_operations_syntax

section \<open>Exceptions\<close>

text \<open>
  The exceptions that \<^verbatim>\<open>stereovision/ui_utils.py\<close> raises, catches or lets through.
  \<open>BadBlockMatcherArgumentError\<close> carries the message that \<^verbatim>\<open>_set_value\<close> prints.
\<close>

datatype exn =
    IndexError
  | KeyError string
  | TypeError
  | ValueError
  | AttributeError
  | ZeroDivisionError
  | ChessboardNotFoundError
  | BadBlockMatcherArgumentError string

section \<open>File discovery: \<^verbatim>\<open>find_files\<close>\<close>

text \<open>\<^verbatim>\<open>str.startswith\<close>.\<close>

definition startswith :: "string \<Rightarrow> string \<Rightarrow> bool" where
  "startswith s p = (take (length p) s = p)"

text \<open>
  \<^verbatim>\<open>list.insert(i, x)\<close> for an index \<open>i \<ge> 0\<close>: an index beyond the end appends.
\<close>

definition list_insert :: "'a list \<Rightarrow> nat \<Rightarrow> 'a \<Rightarrow> 'a list" where
  "list_insert xs i x = take i xs @ x # drop i xs"

text \<open>
  \<^verbatim>\<open>os.path.join(a, b)\<close> of \<^verbatim>\<open>posixpath\<close>, for two components: an absolute \<open>b\<close> replaces
  \<open>a\<close>; an empty \<open>a\<close> or one that ends in a slash takes \<open>b\<close> as it is; otherwise a slash
  is put between them.
\<close>

definition path_join :: "string \<Rightarrow> string \<Rightarrow> string" where
  "path_join a b =
     (if startswith b ''/'' then b
      else if a = [] \<or> last a = CHR ''/'' then a @ b
      else a @ ''/'' @ b)"

text \<open>
  The loop of lines 72 to 74. \<^verbatim>\<open>range(len(files))\<close> is evaluated once, before the list
  grows; \<^verbatim>\<open>files[i * 2]\<close> raises \<open>IndexError\<close> out of range.
\<close>

fun insert_rights :: "nat list \<Rightarrow> string list \<Rightarrow> exn + string list" where
  "insert_rights [] files = Inr files"
| "insert_rights (i # is) files =
     (if i * 2 < length files
      then insert_rights is
             (list_insert files (i * 2 + 1) (''right'' @ drop 4 (files ! (i * 2))))
      else Inl IndexError)"

text \<open>
  \<^verbatim>\<open>find_files(folder)\<close>. The first argument is what \<^verbatim>\<open>os.listdir(folder)\<close> returned, in
  the order the operating system gave it.
\<close>

definition find_files :: "string list \<Rightarrow> string \<Rightarrow> exn + string list" where
  "find_files listing folder =
     (let files = sort (filter (\<lambda>i. startswith i ''left'') listing) in
      case insert_rights [0..<length files] files of
        Inl e \<Rightarrow> Inl e
      | Inr files' \<Rightarrow> Inr (map (path_join folder) files'))"


text \<open>
  What the loop of \<^verbatim>\<open>find_files\<close> is meant to build from one left file: the file
  and, right after it, the right file of the same index.
\<close>

definition with_right :: "string \<Rightarrow> string list" where
  "with_right f = [f, ''right'' @ drop 4 f]"

section \<open>Outcomes of stateful calls\<close>

text \<open>
  A method either returns a value or raises; in both cases the object keeps the
  mutations made so far, so both outcomes carry the state.
\<close>

datatype ('a, 's) outcome = Return 'a 's | Raise exn 's

fun state_of :: "('a, 's) outcome \<Rightarrow> 's" where
  "state_of (Return x s) = s"
| "state_of (Raise e s) = s"


fun raised :: "('a, 's) outcome \<Rightarrow> exn option" where
  "raised (Return x s) = None"
| "raised (Raise e s) = Some e"

section \<open>Arrays\<close>

text \<open>
  A two-dimensional numpy array is a list of rows. Disparity maps hold reals: numpy's
  floating-point arithmetic is idealised to exact arithmetic. All arrays of one session
  (both images of a pair, every disparity map and every mask) have one height and width;
  what numpy does with operands of different shapes is outside the model, and every
  theorem that depends on the shape carries it as a hypothesis.
\<close>

type_synonym 'a array2 = "'a list list"
type_synonym bgr = "8 word \<times> 8 word \<times> 8 word"
type_synonym image = "bgr array2"

definition shape0 :: "'a array2 \<Rightarrow> nat" where
  "shape0 a = length a"

definition shape1 :: "'a array2 \<Rightarrow> nat" where
  "shape1 a = (case a of [] \<Rightarrow> 0 | r # _ \<Rightarrow> length r)"

definition has_shape :: "nat \<Rightarrow> nat \<Rightarrow> 'a array2 \<Rightarrow> bool" where
  "has_shape h w a = (length a = h \<and> list_all (\<lambda>r. length r = w) a)"

text \<open>An element-wise binary operation on two arrays of one shape.\<close>

definition pixelwise :: "('a \<Rightarrow> 'b \<Rightarrow> 'c) \<Rightarrow> 'a array2 \<Rightarrow> 'b array2 \<Rightarrow> 'c array2" where
  "pixelwise f a b = map2 (map2 f) a b"

text \<open>
  A reduction along axis 0 of a list of arrays (numpy stacks the list into one array
  with a new leading axis): pixel \<open>(i, j)\<close> of the result is the reduction of the
  values that the arrays hold at \<open>(i, j)\<close>.
\<close>

definition along_axis0 :: "('a list \<Rightarrow> 'b) \<Rightarrow> 'a array2 list \<Rightarrow> 'b array2" where
  "along_axis0 f as =
     (case as of
        [] \<Rightarrow> []
      | a # _ \<Rightarrow> map (\<lambda>i. map (\<lambda>j. f (map (\<lambda>x. x ! i ! j) as)) [0..<length (a ! i)])
                   [0..<length a])"

text \<open>\<^verbatim>\<open>numpy.mean\<close> and \<^verbatim>\<open>numpy.std\<close> of a vector: the standard deviation is the
  square root of the mean of the squared absolute deviations from the mean.\<close>

definition np_mean :: "real list \<Rightarrow> real" where
  "np_mean xs = sum_list xs / real (length xs)"

definition np_std :: "real list \<Rightarrow> real" where
  "np_std xs = sqrt (np_mean (map (\<lambda>x. \<bar>x - np_mean xs\<bar> ^ 2) xs))"

text \<open>Python 2's \<^verbatim>\<open>reduce(f, xs)\<close> without an initial value.\<close>

definition reduce :: "('a \<Rightarrow> 'a \<Rightarrow> 'a) \<Rightarrow> 'a list \<Rightarrow> exn + 'a" where
  "reduce f xs = (case xs of [] \<Rightarrow> Inl TypeError | x # rest \<Rightarrow> Inr (foldl f x rest))"

text \<open>\<^verbatim>\<open>numpy.finfo(numpy.float32).eps\<close>.\<close>

definition float32_eps :: real where
  "float32_eps = 1 / 2 ^ 23"

text \<open>
  \<^verbatim>\<open>numpy.clip(x, 0, 255).astype(numpy.uint8)\<close> on one value: the conversion truncates,
  which on the clipped, non-negative value is the floor.
\<close>

definition clip :: "real \<Rightarrow> real \<Rightarrow> real \<Rightarrow> real" where
  "clip x lo hi = min (max x lo) hi"

definition to_uint8 :: "real \<Rightarrow> 8 word" where
  "to_uint8 x = word_of_int \<lfloor>x\<rfloor>"

text \<open>\<^verbatim>\<open>(validity_bool * 255).astype(numpy.uint8)\<close> and \<^verbatim>\<open>cv2.cvtColor(_, COLOR_GRAY2BGR)\<close>.\<close>

definition validity_int_of :: "bool array2 \<Rightarrow> 8 word array2" where
  "validity_int_of vb = map (map (\<lambda>v. if v then 255 else 0)) vb"

definition gray2bgr :: "8 word array2 \<Rightarrow> image" where
  "gray2bgr g = map (map (\<lambda>x. (x, x, x))) g"

text \<open>\<^verbatim>\<open>cv2.bitwise_and\<close> on two three-channel images.\<close>

definition bitwise_and :: "image \<Rightarrow> image \<Rightarrow> image" where
  "bitwise_and a b = pixelwise (\<lambda>(b1, g1, r1) (b2, g2, r2). (b1 AND b2, g1 AND g2, r1 AND r2)) a b"

text \<open>\<^verbatim>\<open>numpy.concatenate\<close> of two images along axis 1 (side by side) and axis 0 (stacked).\<close>

definition concatenate_axis1 :: "image \<Rightarrow> image \<Rightarrow> image" where
  "concatenate_axis1 a b = map2 (@) a b"

definition concatenate_axis0 :: "image \<Rightarrow> image \<Rightarrow> image" where
  "concatenate_axis0 a b = a @ b"

text \<open>\<^verbatim>\<open>numpy.zeros((h, w, 3), numpy.uint8)\<close>.\<close>

definition zeros :: "nat \<Rightarrow> nat \<Rightarrow> image" where
  "zeros h w = replicate h (replicate w (0, 0, 0))"


section \<open>The block matcher and the tuner\<close>

text \<open>
  A \<^verbatim>\<open>ParameterConstraint\<close> as \<^verbatim>\<open>BMTuner\<close> uses it: the four methods it calls. The
  classes that implement them live in \<^verbatim>\<open>stereovision.blockmatchers\<close>.
\<close>

record constraint =
  actual_value :: "int \<Rightarrow> int"
  trackbar_value :: "int \<Rightarrow> int"
  trackbar_max :: int
  trackbar_name :: "string \<Rightarrow> string"

text \<open>
  The block matcher object as the tuner reads it: \<^verbatim>\<open>parameter_names()\<close>, its attributes
  (the parameters, \<^verbatim>\<open>minDisparity\<close> and \<^verbatim>\<open>numDisparities\<close> among them; every name the
  tuner reads is a readable attribute), \<^verbatim>\<open>parameter_maxima\<close> (\<open>None\<close> is Python's \<open>None\<close>)
  and \<^verbatim>\<open>parameter_constraints\<close>.
\<close>

record block_matcher =
  parameter_names :: "string list"
  attrs :: "string \<Rightarrow> int"
  parameter_maxima :: "string \<Rightarrow> int option"
  parameter_constraints :: "string \<rightharpoonup> constraint"

text \<open>
  What the tuner calls and does not define: \<^verbatim>\<open>block_matcher.get_disparity(pair)\<close>,
  \<^verbatim>\<open>block_matcher.__setattr__(parameter, value)\<close>, which gives the exception it raised,
  if any, and the block matcher as the call left it, and the lookup table of
  \<^verbatim>\<open>cv2.applyColorMap(_, cv2.COLORMAP_JET)\<close>.
\<close>

record extern =
  get_disparity :: "block_matcher \<Rightarrow> image \<times> image \<Rightarrow> real array2"
  bm_setattr :: "block_matcher \<Rightarrow> string \<Rightarrow> int \<Rightarrow> exn option \<times> block_matcher"
  colormap_jet :: "8 word \<Rightarrow> bgr"

text \<open>What the tuner does to the screen and the console, in order.\<close>

datatype event =
    NamedWindow
  | CreateTrackbar string int int
  | Print string
  | ImShow image
  | WaitKey

text \<open>
  The fields of a \<^verbatim>\<open>BMTuner\<close>. A slot of \<^verbatim>\<open>last_disparities\<close> is \<^verbatim>\<open>(None, None)\<close> or a
  pair of arrays (lines 217 and 244 are the only writes), hence an option of a pair.
  \<^verbatim>\<open>disparity\<close> and \<^verbatim>\<open>validity\<close> do not exist before the first update. The
  \<^verbatim>\<open>calibration\<close> field is stored and never read, and is left out.
\<close>

record tuner =
  block_matcher :: block_matcher
  pair :: "image \<times> image"
  shortest_dimension :: nat
  bm_settings :: "string \<rightharpoonup> int list"
  show_sources :: bool
  rendermaxdepth :: int
  time_smoothing_window :: nat
  last_disparities :: "(real array2 \<times> bool array2) option list"
  next_disparity_index :: nat
  accepted_deviation :: real
  disparity :: "real array2 option"
  validity :: "bool array2 option"
  gui :: "event list"

text \<open>The trackbar that \<^verbatim>\<open>_initialize_trackbars\<close> creates for one parameter.\<close>

definition trackbar_for :: "block_matcher \<Rightarrow> nat \<Rightarrow> string \<Rightarrow> event" where
  "trackbar_for bm shortest parameter =
     (case parameter_constraints bm parameter of
        Some c \<Rightarrow>
          CreateTrackbar (trackbar_name c parameter)
            (trackbar_value c (attrs bm parameter)) (trackbar_max c)
      | None \<Rightarrow>
          CreateTrackbar parameter (attrs bm parameter)
            (case parameter_maxima bm parameter of
               None \<Rightarrow> int shortest
             | Some m \<Rightarrow> if m = 0 then int shortest else m))"

definition initialize_trackbars :: "block_matcher \<Rightarrow> nat \<Rightarrow> event list" where
  "initialize_trackbars bm shortest =
     CreateTrackbar ''maxdepth'' 1 100 # map (trackbar_for bm shortest) (parameter_names bm)"

text \<open>\<^verbatim>\<open>BMTuner.__init__\<close>.\<close>

definition init_tuner :: "block_matcher \<Rightarrow> image \<times> image \<Rightarrow> bool \<Rightarrow> nat \<Rightarrow> tuner" where
  "init_tuner bm image_pair show_srcs window =
     (let shortest = min (shape0 (fst image_pair)) (shape1 (fst image_pair)) in
      \<lparr> block_matcher = bm,
        pair = image_pair,
        shortest_dimension = shortest,
        bm_settings = fold (\<lambda>parameter m. m(parameter \<mapsto> [])) (parameter_names bm) Map.empty,
        show_sources = show_srcs,
        rendermaxdepth = 10,
        time_smoothing_window = window,
        last_disparities = replicate window None,
        next_disparity_index = 0,
        accepted_deviation = 10,
        disparity = None,
        validity = None,
        gui = NamedWindow # initialize_trackbars bm shortest \<rparr>)"

text \<open>\<^verbatim>\<open>_save_bm_state\<close>: the loop over \<^verbatim>\<open>parameter_names()\<close>.\<close>

fun save_bm_state_loop :: "string list \<Rightarrow> tuner \<Rightarrow> (unit, tuner) outcome" where
  "save_bm_state_loop [] t = Return () t"
| "save_bm_state_loop (parameter # rest) t =
     (case bm_settings t parameter of
        None \<Rightarrow> Raise (KeyError parameter) t
      | Some h \<Rightarrow>
          save_bm_state_loop rest
            (t\<lparr>bm_settings := (bm_settings t)(parameter \<mapsto> h @ [attrs (block_matcher t) parameter])\<rparr>))"

definition save_bm_state :: "tuner \<Rightarrow> (unit, tuner) outcome" where
  "save_bm_state t = save_bm_state_loop (parameter_names (block_matcher t)) t"

text \<open>Lines 230 and 231: the raw validity mask of a disparity map.\<close>

definition validity_threshold :: "block_matcher \<Rightarrow> real" where
  "validity_threshold bm = real_of_int (attrs bm ''minDisparity'') - 1 + float32_eps"

definition raw_validity :: "block_matcher \<Rightarrow> real array2 \<Rightarrow> bool array2" where
  "raw_validity bm d = map (map (\<lambda>x. x > validity_threshold bm)) d"

text \<open>\<^verbatim>\<open>_color_disparity\<close>. The float division raises on a zero range.\<close>

definition color_disparity :: "extern \<Rightarrow> block_matcher \<Rightarrow> real array2 \<Rightarrow> exn + image" where
  "color_disparity X bm d =
     (let disparity_min = attrs bm ''minDisparity'';
          disparity_range = attrs bm ''numDisparities'' - 1
      in if disparity_range = 0 then Inl ZeroDivisionError
         else
           let norm_coeff = 255 / real_of_int disparity_range;
               corrected_disparity =
                 map (map (\<lambda>x. to_uint8 (clip ((x - real_of_int disparity_min) * norm_coeff) 0 255))) d
           in Inr (map (map (colormap_jet X)) corrected_disparity))"

text \<open>The populated slots of the smoothing window, in slot order.\<close>

fun populated :: "'a option list \<Rightarrow> 'a list" where
  "populated [] = []"
| "populated (None # slots) = populated slots"
| "populated (Some x # slots) = x # populated slots"

text \<open>\<^verbatim>\<open>_get_smoothed_disparity\<close>.\<close>

definition get_smoothed_disparity :: "tuner \<Rightarrow> exn + (real array2 \<times> bool array2)" where
  "get_smoothed_disparity t =
     (let validities = map snd (populated (last_disparities t)) in
      case reduce (pixelwise (\<and>)) validities of
        Inl e \<Rightarrow> Inl e
      | Inr validity0 \<Rightarrow>
          let disparities = map fst (populated (last_disparities t));
              deviation = along_axis0 np_std disparities;
              deviation_validity = map (map (\<lambda>x. x < accepted_deviation t)) deviation;
              validity1 = pixelwise (\<and>) validity0 deviation_validity;
              mean = along_axis0 np_mean disparities
          in Inr (mean, validity1))"


text \<open>
  \<^verbatim>\<open>_update_disparity_map_no_wait\<close>. The slot write of line 244 raises \<open>IndexError\<close> out
  of range and the modulus of line 245 raises on a zero window. Line 249 builds the
  mask of the smoothed picture from \<^verbatim>\<open>validity_bool\<close>, as the source does.
\<close>

definition update_disparity_map_no_wait :: "extern \<Rightarrow> tuner \<Rightarrow> (unit, tuner) outcome" where
  "update_disparity_map_no_wait X t =
     (let bm = block_matcher t;
          disparity0 = get_disparity X bm (pair t);
          validity_bool = raw_validity bm disparity0;
          validity_3int = gray2bgr (validity_int_of validity_bool)
      in case color_disparity X bm disparity0 of
           Inl e \<Rightarrow> Raise e t
         | Inr colored \<Rightarrow>
             let colored_disparity = bitwise_and colored validity_3int;
                 display =
                   (if show_sources t
                    then concatenate_axis1
                           (concatenate_axis1 (fst (pair t)) colored_disparity) (snd (pair t))
                    else colored_disparity)
             in if \<not> next_disparity_index t < length (last_disparities t) then Raise IndexError t
                else
                  let t1 = t\<lparr>last_disparities :=
                             (last_disparities t)
                               [next_disparity_index t := Some (disparity0, validity_bool)]\<rparr>
                  in if time_smoothing_window t = 0 then Raise ZeroDivisionError t1
                     else
                       let t2 = t1\<lparr>next_disparity_index :=
                                  (next_disparity_index t + 1) mod time_smoothing_window t\<rparr>
                       in if time_smoothing_window t > 1
                          then
                            (case get_smoothed_disparity t2 of
                               Inl e \<Rightarrow> Raise e t2
                             | Inr (smoothed, validity1) \<Rightarrow>
                                 (case color_disparity X bm smoothed of
                                    Inl e \<Rightarrow> Raise e t2
                                  | Inr colored_smoothed0 \<Rightarrow>
                                      let validity_3int' = gray2bgr (validity_int_of validity_bool);
                                          colored_smoothed =
                                            bitwise_and colored_smoothed0 validity_3int';
                                          padding =
                                            zeros (shape0 (fst (pair t))) (shape1 (fst (pair t)));
                                          padded =
                                            (if show_sources t
                                             then concatenate_axis1
                                                    (concatenate_axis1 padding colored_smoothed)
                                                    padding
                                             else colored_smoothed);
                                          display' = concatenate_axis0 display padded
                                      in Return ()
                                           (t2\<lparr>disparity := Some smoothed,
                                               validity := Some validity1,
                                               gui := gui t @ [ImShow display']\<rparr>)))
                          else
                            Return ()
                              (t2\<lparr>disparity := Some disparity0,
                                  validity := Some validity_bool,
                                  gui := gui t @ [ImShow display]\<rparr>))"

text \<open>\<^verbatim>\<open>_update_disparity_map_and_wait\<close>.\<close>

definition update_disparity_map_and_wait :: "extern \<Rightarrow> tuner \<Rightarrow> (unit, tuner) outcome" where
  "update_disparity_map_and_wait X t =
     (case update_disparity_map_no_wait X t of
        Raise e t' \<Rightarrow> Raise e t'
      | Return _ t' \<Rightarrow> Return () (t'\<lparr>gui := gui t' @ [WaitKey]\<rparr>))"

text \<open>
  \<^verbatim>\<open>_set_value\<close>: only \<open>BadBlockMatcherArgumentError\<close> is caught; it is printed and the
  method returns before the update.
\<close>

definition set_value :: "extern \<Rightarrow> tuner \<Rightarrow> string \<Rightarrow> int \<Rightarrow> (unit, tuner) outcome" where
  "set_value X t parameter new_value =
     (case bm_setattr X (block_matcher t) parameter new_value of
        (None, bm') \<Rightarrow> update_disparity_map_no_wait X (t\<lparr>block_matcher := bm'\<rparr>)
      | (Some e, bm') \<Rightarrow>
          (case e of
             BadBlockMatcherArgumentError msg \<Rightarrow>
               Return () (t\<lparr>block_matcher := bm', gui := gui t @ [Print msg]\<rparr>)
           | _ \<Rightarrow> Raise e (t\<lparr>block_matcher := bm'\<rparr>)))"

text \<open>\<^verbatim>\<open>_set_value_from_trackbar\<close>.\<close>

definition set_value_from_trackbar ::
  "extern \<Rightarrow> tuner \<Rightarrow> string \<Rightarrow> constraint \<Rightarrow> int \<Rightarrow> (unit, tuner) outcome" where
  "set_value_from_trackbar X t parameter c new_trackbar_value =
     set_value X t parameter (actual_value c new_trackbar_value)"

text \<open>\<^verbatim>\<open>tune_pair\<close>.\<close>

definition tune_pair :: "extern \<Rightarrow> tuner \<Rightarrow> image \<times> image \<Rightarrow> bool \<Rightarrow> (unit, tuner) outcome" where
  "tune_pair X t new_pair wait_key =
     (case save_bm_state t of
        Raise e t' \<Rightarrow> Raise e t'
      | Return _ t' \<Rightarrow>
          (if wait_key then update_disparity_map_and_wait X (t'\<lparr>pair := new_pair\<rparr>)
           else update_disparity_map_no_wait X (t'\<lparr>pair := new_pair\<rparr>)))"

section \<open>The settings report\<close>

text \<open>\<^verbatim>\<open>str\<close> of an integer.\<close>

fun str_nat :: "nat \<Rightarrow> string" where
  "str_nat n = (if n < 10 then [char_of (48 + n)] else str_nat (n div 10) @ [char_of (48 + n mod 10)])"

declare str_nat.simps [simp del]

definition str_int :: "int \<Rightarrow> string" where
  "str_int i = (if i < 0 then CHR ''-'' # str_nat (nat (- i)) else str_nat (nat i))"

text \<open>
  \<^verbatim>\<open>str.center(width)\<close>: when the padding is odd, the extra blank goes to the left if
  the width is odd too, and to the right otherwise.
\<close>

definition center :: "string \<Rightarrow> nat \<Rightarrow> string" where
  "center s width =
     (if width \<le> length s then s
      else
        let marg = width - length s;
            left = marg div 2 + (if odd marg \<and> odd width then 1 else 0)
        in replicate left CHR '' '' @ s @ replicate (marg - left) CHR '' '')"

text \<open>\<^verbatim>\<open>"\n".join(lines)\<close>.\<close>

fun join_lines :: "string list \<Rightarrow> string" where
  "join_lines [] = []"
| "join_lines [l] = l"
| "join_lines (l # ls) = l @ CHR 0x0A # join_lines ls"

text \<open>
  Lines 312 to 314: the dictionary \<^verbatim>\<open>value_frequency\<close>, keyed by the count, filled in
  the iteration order of the set of values; a later value with the same count replaces
  an earlier one.
\<close>

definition value_frequency_of :: "int list \<Rightarrow> int list \<Rightarrow> (nat \<times> int) list" where
  "value_frequency_of unique_values settings_list =
     fold (\<lambda>v d. AList.update (count_list settings_list v) v d) unique_values []"

text \<open>
  Lines 315, 316 and 323: the rows of the table, one for each key of the dictionary,
  keys sorted in decreasing order. \<open>set_list\<close> is \<^verbatim>\<open>list(set(_))\<close>, whose order Python
  leaves to the hash table.
\<close>

definition report_rows :: "(int list \<Rightarrow> int list) \<Rightarrow> int list \<Rightarrow> (int \<times> nat) list" where
  "report_rows set_list settings_list =
     (let value_frequency = value_frequency_of (set_list settings_list) settings_list;
          frequencies = rev (sort (map fst value_frequency))
      in map (\<lambda>frequency. (the (map_of value_frequency frequency), frequency)) frequencies)"

definition render_report :: "string \<Rightarrow> (int \<times> nat) list \<Rightarrow> string" where
  "render_report parameter rows =
     (let header = parameter @ '' value | Selection frequency'';
          left_column_width = length (take (length header - 21) header);
          right_column_width = 21
      in join_lines
           (header
            # (replicate left_column_width CHR ''-'' @ ''|'' @ replicate right_column_width CHR ''-'')
            # map (\<lambda>(v, frequency).
                     center (str_int v) left_column_width @ ''|''
                     @ center (str_nat frequency) right_column_width) rows))"

text \<open>Lines 329 and 330: \<^verbatim>\<open>pop(-1)\<close> on every parameter's history.\<close>

fun pop_newest_loop :: "string list \<Rightarrow> tuner \<Rightarrow> (unit, tuner) outcome" where
  "pop_newest_loop [] t = Return () t"
| "pop_newest_loop (param # rest) t =
     (case bm_settings t param of
        None \<Rightarrow> Raise (KeyError param) t
      | Some h \<Rightarrow>
          (if h = [] then Raise IndexError t
           else pop_newest_loop rest (t\<lparr>bm_settings := (bm_settings t)(param \<mapsto> butlast h)\<rparr>)))"

text \<open>\<^verbatim>\<open>report_settings\<close>.\<close>

definition report_settings ::
  "(int list \<Rightarrow> int list) \<Rightarrow> tuner \<Rightarrow> string \<Rightarrow> (string, tuner) outcome" where
  "report_settings set_list t parameter =
     (case save_bm_state t of
        Raise e t' \<Rightarrow> Raise e t'
      | Return _ t' \<Rightarrow>
          (case bm_settings t' parameter of
             None \<Rightarrow> Raise (KeyError parameter) t'
           | Some h \<Rightarrow>
               let settings_list = drop 1 h;
                   report = render_report parameter (report_rows set_list settings_list)
               in (case pop_newest_loop (parameter_names (block_matcher t')) t' of
                     Raise e t'' \<Rightarrow> Raise e t''
                   | Return _ t'' \<Rightarrow> Return report t'')))"


section \<open>The calibration pipeline: \<^verbatim>\<open>calibrate_folder\<close>\<close>

text \<open>The fields of \<^verbatim>\<open>args\<close> that \<^verbatim>\<open>calibrate_folder\<close> reads.\<close>

record args =
  input_files :: "string list"
  rows :: int
  columns :: int
  square_size :: real
  output_folder :: string
  show_chessboards :: bool

text \<open>
  Modelled from the spec: \<^verbatim>\<open>StereoCalibrator\<close> of \<^verbatim>\<open>stereovision.calibration\<close>, which is
  not among the sources. The spec's Calibrator accepts image pairs and accumulates
  chessboard corner observations; \<^verbatim>\<open>addCorners\<close> fails with the chessboard-not-found
  signal when corner detection fails on a pair. The calibrator is the chessboard
  geometry, the frame size and the pairs observed so far; the corner detector is the
  parameter \<open>found\<close>.
\<close>

record calibrator =
  cal_rows :: int
  cal_columns :: int
  cal_square_size :: real
  cal_image_size :: "nat \<times> nat"
  observations :: "(image option \<times> image option) list"

definition StereoCalibrator :: "int \<Rightarrow> int \<Rightarrow> real \<Rightarrow> nat \<times> nat \<Rightarrow> calibrator" where
  "StereoCalibrator r c sq image_size =
     \<lparr> cal_rows = r, cal_columns = c, cal_square_size = sq, cal_image_size = image_size,
       observations = [] \<rparr>"

definition add_corners ::
  "(image option \<times> image option \<Rightarrow> bool) \<Rightarrow> calibrator \<Rightarrow> image option \<times> image option
     \<Rightarrow> exn + calibrator" where
  "add_corners found cal image_pair =
     (if found image_pair then Inr (cal\<lparr>observations := observations cal @ [image_pair]\<rparr>)
      else Inl ChessboardNotFoundError)"

text \<open>
  What \<^verbatim>\<open>calibrate_folder\<close> calls and does not define: \<^verbatim>\<open>cv2.imread\<close> (\<open>None\<close> for a file
  it cannot read), the corner detector behind \<^verbatim>\<open>add_corners\<close>, and the calibrator's
  \<^verbatim>\<open>calibrate_cameras\<close> and \<^verbatim>\<open>check_calibration\<close>, the first of which may raise.
\<close>

record 'k calib_env =
  imread :: "string \<Rightarrow> image option"
  chessboard_found :: "image option \<times> image option \<Rightarrow> bool"
  calibrate_cameras :: "calibrator \<Rightarrow> exn + 'k"
  check_calibration :: "calibrator \<Rightarrow> 'k \<Rightarrow> real \<times> real"

text \<open>
  What the pipeline prints, reports to the progress bar, asks of the calibrator after the
  loop, and exports, in order. \<open>PrintErrors\<close> is the message of lines 117 to 120 with
  its two numbers.
\<close>

datatype 'k cal_event =
    CPrint string
  | ProgressStart nat
  | ProgressUpdate nat
  | ProgressFinish
  | CallCalibrateCameras
  | CallCheckCalibration
  | PrintErrors real real
  | Export 'k string real real

text \<open>The state of a run: \<^verbatim>\<open>args.input_files\<close>, the calibrator once built, the events.\<close>

record 'k cal_run =
  remaining_files :: "string list"
  the_calibrator :: "calibrator option"
  events :: "'k cal_event list"

text \<open>
  The loop of lines 102 to 111. Unpacking a one-element slice raises \<open>ValueError\<close>. Of
  the exceptions of \<^verbatim>\<open>add_corners\<close> only \<open>ChessboardNotFoundError\<close> is caught.
\<close>

fun read_input_files ::
  "'k calib_env \<Rightarrow> nat \<Rightarrow> string list \<Rightarrow> calibrator \<Rightarrow> 'k cal_event list
     \<Rightarrow> (unit, 'k cal_run) outcome" where
  "read_input_files E maxval [] cal out =
     Return () \<lparr> remaining_files = [], the_calibrator = Some cal, events = out \<rparr>"
| "read_input_files E maxval [f] cal out =
     Raise ValueError \<lparr> remaining_files = [f], the_calibrator = Some cal, events = out \<rparr>"
| "read_input_files E maxval (left # right # rest) cal out =
     (case add_corners (chessboard_found E) cal (imread E left, imread E right) of
        Inr cal' \<Rightarrow>
          read_input_files E maxval rest cal' (out @ [ProgressUpdate (maxval - length rest)])
      | Inl e \<Rightarrow>
          (if e = ChessboardNotFoundError
           then read_input_files E maxval rest cal
                  (out @ [CPrint (''Error with '' @ left @ '','' @ right),
                          ProgressUpdate (maxval - length rest)])
           else Raise e \<lparr> remaining_files = left # right # rest, the_calibrator = Some cal,
                          events = out \<rparr>))"

text \<open>\<^verbatim>\<open>calibrate_folder\<close>.\<close>

definition calibrate_folder :: "'k calib_env \<Rightarrow> args \<Rightarrow> (unit, 'k cal_run) outcome" where
  "calibrate_folder E a =
     (case input_files a of
        [] \<Rightarrow> Raise IndexError \<lparr> remaining_files = [], the_calibrator = None, events = [] \<rparr>
      | first # _ \<Rightarrow>
          (case imread E first of
             None \<Rightarrow>
               Raise AttributeError
                 \<lparr> remaining_files = input_files a, the_calibrator = None, events = [] \<rparr>
           | Some img \<Rightarrow>
               let height = shape0 img;
                   width = shape1 img;
                   cal0 = StereoCalibrator (rows a) (columns a) (square_size a) (width, height);
                   maxval = length (input_files a)
               in (case read_input_files E maxval (input_files a) cal0
                          [CPrint ''Reading input files...'', ProgressStart maxval] of
                     Raise e r \<Rightarrow> Raise e r
                   | Return _ r \<Rightarrow>
                       let cal = the (the_calibrator r);
                           out1 = events r
                                  @ [ProgressFinish,
                                     CPrint ''Calibrating cameras. This can take a while.'',
                                     CallCalibrateCameras]
                       in (case calibrate_cameras E cal of
                             Inl e \<Rightarrow> Raise e (r\<lparr>events := out1\<rparr>)
                           | Inr calibration \<Rightarrow>
                               let (avg_error, ocv_error) = check_calibration E cal calibration
                               in Return ()
                                    (r\<lparr>events := out1
                                         @ [CallCheckCalibration,
                                            PrintErrors avg_error ocv_error,
                                            Export calibration (output_folder a)
                                              avg_error ocv_error]\<rparr>)))))"

text \<open>
  The consecutive pairs of the file list, as the loop takes them, and the two images
  that \<^verbatim>\<open>cv2.imread\<close> gives for a pair; the theorems on the pipeline are stated with them.
\<close>

fun file_pairs :: "string list \<Rightarrow> (string \<times> string) list" where
  "file_pairs (left # right # rest) = (left, right) # file_pairs rest"
| "file_pairs _ = []"

definition read_pair :: "'k calib_env \<Rightarrow> string \<times> string \<Rightarrow> image option \<times> image option" where
  "read_pair E p = (imread E (fst p), imread E (snd p))"

section \<open>Concrete sessions\<close>

text \<open>
  A small block matcher, one-pixel images and the sessions built from them, on which the
  theorems below are run. The stand-in for \<^verbatim>\<open>get_disparity\<close> reads the disparity off the
  blue channel of the left image, the stand-in for \<^verbatim>\<open>__setattr__\<close> rejects negative values
  and leaves the block matcher as it was when it does, and the stand-in for the colour
  map never yields the background colour.
\<close>

definition demo_matcher :: block_matcher where
  "demo_matcher =
     \<lparr> parameter_names = [''minDisparity'', ''numDisparities'', ''SADWindowSize''],
       attrs = (\<lambda>_. 0)(''minDisparity'' := 16, ''numDisparities'' := 65, ''SADWindowSize'' := 5),
       parameter_maxima = (\<lambda>_. None),
       parameter_constraints = Map.empty \<rparr>"

definition demo_extern :: extern where
  "demo_extern =
     \<lparr> get_disparity = (\<lambda>bm pr. map (map (\<lambda>(b, g, r). real (unat b))) (fst pr)),
       bm_setattr = (\<lambda>bm p v.
          if v < 0 then (Some (BadBlockMatcherArgumentError ''negative value''), bm)
          else (None, bm\<lparr>attrs := (attrs bm)(p := v)\<rparr>)),
       colormap_jet = (\<lambda>c. (c, 255 - c, 255)) \<rparr>"

definition demo_pair :: "8 word \<Rightarrow> image \<times> image" where
  "demo_pair b = ([[(b, 0, 0)]], [[(b, 0, 0)]])"

definition demo_tuner :: "nat \<Rightarrow> tuner" where
  "demo_tuner window = init_tuner demo_matcher (demo_pair 20) False window"

text \<open>A window of capacity 5 of which two slots are populated.\<close>

definition demo_window_tuner :: tuner where
  "demo_window_tuner =
     (demo_tuner 5)
       \<lparr> last_disparities := [Some ([[2]], [[True]]), Some ([[4]], [[True]]), None, None, None],
         next_disparity_index := 2 \<rparr>"


text \<open>A parameter is changed before the first \<^verbatim>\<open>tune_pair\<close> call.\<close>

definition demo_changed :: tuner where
  "demo_changed =
     state_of (tune_pair demo_extern
       (state_of (set_value demo_extern (demo_tuner 1) ''SADWindowSize'' 7))
       (demo_pair 20) False)"

text \<open>A window of capacity 2 fed two frames whose disparities are 20 and 60.\<close>

definition demo_smoothed :: tuner where
  "demo_smoothed =
     state_of (tune_pair demo_extern
       (state_of (tune_pair demo_extern (demo_tuner 2) (demo_pair 20) False))
       (demo_pair 60) False)"

text \<open>Three \<^verbatim>\<open>tune_pair\<close> calls, the parameter changed before the second and the third.\<close>

definition demo_session :: tuner where
  "demo_session =
     state_of (tune_pair demo_extern
       (state_of (set_value demo_extern
         (state_of (tune_pair demo_extern
           (state_of (set_value demo_extern
             (state_of (tune_pair demo_extern (demo_tuner 1) (demo_pair 20) False))
             ''SADWindowSize'' 7))
           (demo_pair 20) False))
         ''SADWindowSize'' 9))
       (demo_pair 20) False)"

text \<open>
  Four image pairs of which the second shows no chessboard. The stand-in calibration is
  the number of observations, and calibrating without any observation raises.
\<close>

definition demo_env :: "nat calib_env" where
  "demo_env =
     \<lparr> imread = (\<lambda>f. if f = ''left02.png'' then Some [[(0, 0, 0)]] else Some [[(255, 255, 255)]]),
       chessboard_found = (\<lambda>p. fst p \<noteq> Some [[(0, 0, 0)]]),
       calibrate_cameras = (\<lambda>cal. if observations cal = [] then Inl ValueError
                                   else Inr (length (observations cal))),
       check_calibration = (\<lambda>cal k. (1 / 2, 1 / 4)) \<rparr>"

definition demo_args :: args where
  "demo_args =
     \<lparr> input_files = [''left01.png'', ''right01.png'', ''left02.png'', ''right02.png'',
                      ''left03.png'', ''right03.png'', ''left04.png'', ''right04.png''],
       rows = 9, columns = 6, square_size = 18 / 10, output_folder = ''out'',
       show_chessboards = False \<rparr>"

section \<open>File discovery\<close>

lemma length_concat_with_right: "length (concat (map with_right xs)) = 2 * length xs"
  by (induction xs) (simp_all add: with_right_def)

text \<open>
  The loop invariant: when the loop reaches index \<open>i\<close>, the first \<open>i\<close> left files are
  followed by their right files and the others are untouched.
\<close>

lemma insert_rights_invariant:
  "i \<le> length fs \<Longrightarrow>
   insert_rights [i..<length fs] (concat (map with_right (take i fs)) @ drop i fs)
     = Inr (concat (map with_right fs))"
proof (induction "length fs - i" arbitrary: i)
  case 0
  then show ?case by simp
next
  case (Suc k)
  then have lt: "i < length fs" by simp
  let ?pre = "concat (map with_right (take i fs))"
  have lp: "length ?pre = 2 * i"
    using lt by (simp add: length_concat_with_right)
  have step:
    "list_insert (?pre @ drop i fs) (i * 2 + 1)
       (''right'' @ drop 4 ((?pre @ drop i fs) ! (i * 2)))
     = concat (map with_right (take (Suc i) fs)) @ drop (Suc i) fs"
    using lt lp
    by (simp add: list_insert_def take_Suc_conv_app_nth nth_append with_right_def
        Cons_nth_drop_Suc[symmetric] mult.commute)
  have "insert_rights [i..<length fs] (?pre @ drop i fs)
      = insert_rights [Suc i..<length fs]
          (concat (map with_right (take (Suc i) fs)) @ drop (Suc i) fs)"
    using lt lp step by (simp add: upt_conv_Cons del: upt_Suc)
  also have "\<dots> = Inr (concat (map with_right fs))"
    using Suc by simp
  finally show ?case .
qed

text \<open>
  \<^verbatim>\<open>find_files\<close> never raises: it returns the sorted left files, each followed by the
  right file of the same index, joined with the folder.
\<close>

lemma find_files_pairs:
  "find_files listing folder =
     Inr (map (path_join folder)
            (concat (map with_right (sort (filter (\<lambda>i. startswith i ''left'') listing)))))"
  using insert_rights_invariant[of 0 "sort (filter (\<lambda>i. startswith i ''left'') listing)"]
  by (simp add: find_files_def Let_def)

text \<open>
  C9. For a folder whose listing holds exactly \<^verbatim>\<open>left01.png\<close>, \<^verbatim>\<open>right01.png\<close>,
  \<^verbatim>\<open>left02.png\<close> and \<^verbatim>\<open>right02.png\<close>, in whatever order the operating system lists
  them, \<^verbatim>\<open>find_files\<close> returns the four paths, each joined with the folder, in the
  order left01, right01, left02, right02.
\<close>

theorem find_files_interleaved:
  assumes "mset listing = {#''left01.png'', ''right01.png'', ''left02.png'', ''right02.png''#}"
  shows "find_files listing folder =
     Inr [path_join folder ''left01.png'', path_join folder ''right01.png'',
          path_join folder ''left02.png'', path_join folder ''right02.png'']"
proof -
  let ?P = "\<lambda>i. startswith i ''left''"
  have "mset (filter ?P listing) = filter_mset ?P (mset listing)"
    by simp
  also have "\<dots> = mset [''left01.png'', ''left02.png'']"
    unfolding assms by (simp add: startswith_def)
  finally have m: "mset (filter ?P listing) = mset [''left01.png'', ''left02.png'']" .
  have "sort (filter ?P listing) = [''left01.png'', ''left02.png'']"
    by (rule properties_for_sort[OF m[symmetric]]) simp
  then show ?thesis
    by (simp add: find_files_pairs with_right_def)
qed

theorem find_files_interleaved_witness:
  "mset [''right02.png'', ''left02.png'', ''right01.png'', ''left01.png'']
     = {#''left01.png'', ''right01.png'', ''left02.png'', ''right02.png''#}
   \<and> find_files [''right02.png'', ''left02.png'', ''right01.png'', ''left01.png''] ''shots''
     = Inr [''shots/left01.png'', ''shots/right01.png'',
            ''shots/left02.png'', ''shots/right02.png'']"
proof -
  have h: "mset [''right02.png'', ''left02.png'', ''right01.png'', ''left01.png'']
     = {#''left01.png'', ''right01.png'', ''left02.png'', ''right02.png''#}"
    by simp
  show ?thesis
    using h find_files_interleaved[OF h, of "''shots''"]
    by (simp add: path_join_def startswith_def)
qed

section \<open>Element-wise operations and reductions\<close>

lemma has_shape_nth: "has_shape h w a \<Longrightarrow> i < h \<Longrightarrow> length (a ! i) = w"
  by (simp add: has_shape_def list_all_length)

lemma has_shape_iff: "has_shape h w a \<longleftrightarrow> length a = h \<and> (\<forall>i<h. length (a ! i) = w)"
  by (auto simp add: has_shape_def list_all_length)

lemma pixelwise_shape:
  "has_shape h w a \<Longrightarrow> has_shape h w b \<Longrightarrow> has_shape h w (pixelwise f a b)"
  by (simp add: has_shape_iff pixelwise_def)

lemma pixelwise_nth:
  "has_shape h w a \<Longrightarrow> has_shape h w b \<Longrightarrow> i < h \<Longrightarrow> j < w \<Longrightarrow>
   pixelwise f a b ! i ! j = f (a ! i ! j) (b ! i ! j)"
  by (simp add: has_shape_iff pixelwise_def)

lemma map_map_shape: "has_shape h w a \<Longrightarrow> has_shape h w (map (map f) a)"
  by (simp add: has_shape_iff)

lemma map_map_nth: "has_shape h w a \<Longrightarrow> i < h \<Longrightarrow> j < w \<Longrightarrow> map (map f) a ! i ! j = f (a ! i ! j)"
  by (simp add: has_shape_iff)

lemma along_axis0_shape:
  "has_shape h w a \<Longrightarrow> has_shape h w (along_axis0 f (a # as))"
  by (simp add: has_shape_iff along_axis0_def)

lemma along_axis0_nth:
  "has_shape h w a \<Longrightarrow> i < h \<Longrightarrow> j < w \<Longrightarrow>
   along_axis0 f (a # as) ! i ! j = f (map (\<lambda>x. x ! i ! j) (a # as))"
  by (simp add: has_shape_iff along_axis0_def)

lemma foldl_and_shape:
  "has_shape h w v \<Longrightarrow> \<forall>u\<in>set vs. has_shape h w u \<Longrightarrow> has_shape h w (foldl (pixelwise (\<and>)) v vs)"
  by (induction vs arbitrary: v) (simp_all add: pixelwise_shape)

lemma foldl_and_nth:
  "has_shape h w v \<Longrightarrow> \<forall>u\<in>set vs. has_shape h w u \<Longrightarrow> i < h \<Longrightarrow> j < w \<Longrightarrow>
   foldl (pixelwise (\<and>)) v vs ! i ! j \<longleftrightarrow> (\<forall>u\<in>set (v # vs). u ! i ! j)"
proof (induction vs arbitrary: v)
  case Nil
  then show ?case by simp
next
  case (Cons u vs)
  have "has_shape h w (pixelwise (\<and>) v u)"
    using Cons.prems by (simp add: pixelwise_shape)
  then have "foldl (pixelwise (\<and>)) (pixelwise (\<and>) v u) vs ! i ! j
      \<longleftrightarrow> (\<forall>x\<in>set (pixelwise (\<and>) v u # vs). x ! i ! j)"
    using Cons.prems by (intro Cons.IH) simp_all
  then show ?case
    using Cons.prems by (auto simp add: pixelwise_nth)
qed

section \<open>The raw validity mask\<close>

lemma float32_eps_bounds: "0 < float32_eps" "float32_eps < 1"
  by (simp_all add: float32_eps_def)

text \<open>
  C10. In the raw validity mask of a disparity map a pixel is valid exactly when its
  disparity is strictly greater than \<open>minDisparity - 1 + eps\<close>, \<open>eps\<close> the float32 machine
  epsilon; so the block matcher's no-match value \<open>minDisparity - 1\<close> is invalid and every
  disparity from \<open>minDisparity\<close> upwards is valid. \<^verbatim>\<open>_update_disparity_map_no_wait\<close> builds
  its mask with \<open>raw_validity\<close> from the map that \<^verbatim>\<open>get_disparity\<close> returned.
\<close>

theorem raw_validity_threshold:
  assumes "i < length d" and "j < length (d ! i)"
  shows "(raw_validity bm d ! i ! j
            \<longleftrightarrow> d ! i ! j > real_of_int (attrs bm ''minDisparity'') - 1 + float32_eps)
       \<and> (d ! i ! j = real_of_int (attrs bm ''minDisparity'') - 1 \<longrightarrow> \<not> raw_validity bm d ! i ! j)
       \<and> (d ! i ! j \<ge> real_of_int (attrs bm ''minDisparity'') \<longrightarrow> raw_validity bm d ! i ! j)"
  using assms float32_eps_bounds
  by (simp add: raw_validity_def validity_threshold_def)

theorem raw_validity_threshold_witness:
  "0 < length [[15, 16 :: real]] \<and> 0 < length ([[15, 16 :: real]] ! 0)
   \<and> \<not> raw_validity demo_matcher [[15, 16]] ! 0 ! 0"
  using raw_validity_threshold[of 0 "[[15, 16]]" 0 demo_matcher]
  by (simp add: demo_matcher_def float32_eps_def)

section \<open>Temporal smoothing\<close>

lemma accepted_deviation_init: "accepted_deviation (init_tuner bm pr s win) = 10"
  by (simp add: init_tuner_def Let_def)

text \<open>
  C1. When at least one slot of the smoothing window is populated (and the maps and
  masks held have one shape), \<^verbatim>\<open>_get_smoothed_disparity\<close> returns a mean and a validity
  mask of that shape: every pixel of the mean is the sum of the populated maps at that
  pixel divided by the number of populated slots, whatever the capacity of the window;
  a pixel is valid exactly when every populated mask holds there and the standard
  deviation of the populated maps at that pixel is below \<open>accepted_deviation\<close>, which a
  new tuner sets to 10.
\<close>

theorem smoothed_over_populated:
  assumes pop: "populated (last_disparities t) \<noteq> []"
    and shapes: "\<forall>p \<in> set (populated (last_disparities t)).
                   has_shape h w (fst p) \<and> has_shape h w (snd p)"
  shows "\<exists>mean validity'.
           get_smoothed_disparity t = Inr (mean, validity')
         \<and> has_shape h w mean \<and> has_shape h w validity'
         \<and> (\<forall>i<h. \<forall>j<w.
               mean ! i ! j
                 = sum_list (map (\<lambda>p. fst p ! i ! j) (populated (last_disparities t)))
                   / real (length (populated (last_disparities t)))
             \<and> (validity' ! i ! j \<longleftrightarrow>
                  (\<forall>p \<in> set (populated (last_disparities t)). snd p ! i ! j)
                \<and> sqrt (sum_list (map (\<lambda>p. (fst p ! i ! j - mean ! i ! j)\<^sup>2)
                                     (populated (last_disparities t)))
                        / real (length (populated (last_disparities t))))
                  < accepted_deviation t))
         \<and> accepted_deviation (init_tuner bm pr s win) = 10"
proof -
  let ?ps = "populated (last_disparities t)"
  obtain p0 rest where ps: "?ps = p0 # rest"
    using pop by (cases ?ps) auto
  let ?ds = "map fst ?ps"
  let ?v0 = "foldl (pixelwise (\<and>)) (snd p0) (map snd rest)"
  let ?mean = "along_axis0 np_mean ?ds"
  let ?dev = "map (map (\<lambda>x. x < accepted_deviation t)) (along_axis0 np_std ?ds)"
  let ?val = "pixelwise (\<and>) ?v0 ?dev"
  have sh0: "has_shape h w (fst p0)" "has_shape h w (snd p0)"
    and shr: "\<forall>u\<in>set (map snd rest). has_shape h w u"
    using shapes ps by auto
  have res: "get_smoothed_disparity t = Inr (?mean, ?val)"
    by (simp add: get_smoothed_disparity_def ps reduce_def Let_def)
  have ds: "?ds = fst p0 # map fst rest"
    by (simp add: ps)
  have sh_mean: "has_shape h w ?mean"
    unfolding ds by (rule along_axis0_shape[OF sh0(1)])
  have sh_std: "has_shape h w (along_axis0 np_std ?ds)"
    unfolding ds by (rule along_axis0_shape[OF sh0(1)])
  have sh_dev: "has_shape h w ?dev"
    by (rule map_map_shape[OF sh_std])
  have sh_v0: "has_shape h w ?v0"
    by (rule foldl_and_shape[OF sh0(2) shr])
  have sh_val: "has_shape h w ?val"
    by (rule pixelwise_shape[OF sh_v0 sh_dev])
  have px: "?mean ! i ! j = sum_list (map (\<lambda>p. fst p ! i ! j) ?ps) / real (length ?ps)
          \<and> (?val ! i ! j \<longleftrightarrow>
                (\<forall>p \<in> set ?ps. snd p ! i ! j)
              \<and> sqrt (sum_list (map (\<lambda>p. (fst p ! i ! j - ?mean ! i ! j)\<^sup>2) ?ps)
                      / real (length ?ps))
                < accepted_deviation t)"
    if ij: "i < h" "j < w" for i j
  proof -
    have m: "?mean ! i ! j = np_mean (map (\<lambda>x. x ! i ! j) ?ds)"
      unfolding ds by (rule along_axis0_nth[OF sh0(1) ij])
    have m': "?mean ! i ! j = sum_list (map (\<lambda>p. fst p ! i ! j) ?ps) / real (length ?ps)"
      unfolding m by (simp add: np_mean_def comp_def)
    have s: "along_axis0 np_std ?ds ! i ! j = np_std (map (\<lambda>x. x ! i ! j) ?ds)"
      unfolding ds by (rule along_axis0_nth[OF sh0(1) ij])
    have s': "along_axis0 np_std ?ds ! i ! j
        = sqrt (sum_list (map (\<lambda>p. (fst p ! i ! j - ?mean ! i ! j)\<^sup>2) ?ps) / real (length ?ps))"
      unfolding s m by (simp add: np_std_def np_mean_def comp_def)
    have d: "?dev ! i ! j \<longleftrightarrow> along_axis0 np_std ?ds ! i ! j < accepted_deviation t"
      by (rule map_map_nth[OF sh_std ij])
    have v: "?v0 ! i ! j \<longleftrightarrow> (\<forall>u\<in>set (snd p0 # map snd rest). u ! i ! j)"
      by (rule foldl_and_nth[OF sh0(2) shr ij])
    have v': "?v0 ! i ! j \<longleftrightarrow> (\<forall>p \<in> set ?ps. snd p ! i ! j)"
      unfolding v by (simp add: ps)
    have "?val ! i ! j \<longleftrightarrow> ?v0 ! i ! j \<and> ?dev ! i ! j"
      by (rule pixelwise_nth[OF sh_v0 sh_dev ij])
    then show ?thesis
      using m' s' d v' by simp
  qed
  show ?thesis
    using res sh_mean sh_val px accepted_deviation_init by blast
qed

theorem smoothed_over_populated_witness:
  "populated (last_disparities demo_window_tuner) \<noteq> []
   \<and> list_all (\<lambda>p. has_shape 1 1 (fst p) \<and> has_shape 1 1 (snd p))
        (populated (last_disparities demo_window_tuner))
   \<and> length (last_disparities demo_window_tuner) = 5
   \<and> (\<exists>mean validity'.
         get_smoothed_disparity demo_window_tuner = Inr (mean, validity')
       \<and> mean ! 0 ! 0 = 3 \<and> validity' ! 0 ! 0)"
proof -
  have h1: "populated (last_disparities demo_window_tuner) \<noteq> []"
    by (simp add: demo_window_tuner_def)
  have h2: "\<forall>p \<in> set (populated (last_disparities demo_window_tuner)).
         has_shape 1 1 (fst p) \<and> has_shape 1 1 (snd p)"
    by (simp add: demo_window_tuner_def has_shape_def)
  have ps: "populated (last_disparities demo_window_tuner)
      = [([[2]], [[True]]), ([[4]], [[True]])]"
    by (simp add: demo_window_tuner_def)
  have acc: "accepted_deviation demo_window_tuner = 10"
    by (simp add: demo_window_tuner_def demo_tuner_def init_tuner_def Let_def)
  obtain mean validity' where r: "get_smoothed_disparity demo_window_tuner = Inr (mean, validity')"
    and px: "\<forall>i<1. \<forall>j<1.
               mean ! i ! j
                 = sum_list (map (\<lambda>p. fst p ! i ! j) (populated (last_disparities demo_window_tuner)))
                   / real (length (populated (last_disparities demo_window_tuner)))
             \<and> (validity' ! i ! j \<longleftrightarrow>
                  (\<forall>p \<in> set (populated (last_disparities demo_window_tuner)). snd p ! i ! j)
                \<and> sqrt (sum_list (map (\<lambda>p. (fst p ! i ! j - mean ! i ! j)\<^sup>2)
                                     (populated (last_disparities demo_window_tuner)))
                        / real (length (populated (last_disparities demo_window_tuner))))
                  < accepted_deviation demo_window_tuner)"
    using smoothed_over_populated[OF h1 h2, where bm = demo_matcher and s = False and win = 5
        and pr = "demo_pair 20"]
    by blast
  have m: "mean ! 0 ! 0 = sum_list (map (\<lambda>p. fst p ! 0 ! 0) (populated (last_disparities demo_window_tuner)))
                   / real (length (populated (last_disparities demo_window_tuner)))"
    and v: "validity' ! 0 ! 0 \<longleftrightarrow>
                  (\<forall>p \<in> set (populated (last_disparities demo_window_tuner)). snd p ! 0 ! 0)
                \<and> sqrt (sum_list (map (\<lambda>p. (fst p ! 0 ! 0 - mean ! 0 ! 0)\<^sup>2)
                                     (populated (last_disparities demo_window_tuner)))
                        / real (length (populated (last_disparities demo_window_tuner))))
                  < accepted_deviation demo_window_tuner"
    using px by simp_all
  have m3: "mean ! 0 ! 0 = 3"
    using m by (simp add: ps)
  have "validity' ! 0 ! 0"
    unfolding v m3 acc ps by simp
  then show ?thesis
    using h1 h2 r m3 by (auto simp add: demo_window_tuner_def list_all_iff)
qed

section \<open>Recording and removing settings\<close>

lemma save_bm_state_loop_result:
  "save_bm_state_loop ns t = Return u t' \<Longrightarrow>
     set ns \<subseteq> dom (bm_settings t)
   \<and> t' = t\<lparr>bm_settings := (\<lambda>q. map_option
               (\<lambda>h. h @ replicate (count_list ns q) (attrs (block_matcher t) q))
               (bm_settings t q))\<rparr>"
proof (induction ns arbitrary: t)
  case Nil
  then show ?case by (simp add: option.map_ident)
next
  case (Cons p ns)
  from Cons.prems obtain h where h: "bm_settings t p = Some h"
    by (auto split: option.splits)
  let ?t1 = "t\<lparr>bm_settings := (bm_settings t)(p \<mapsto> h @ [attrs (block_matcher t) p])\<rparr>"
  have run: "save_bm_state_loop ns ?t1 = Return u t'"
    using Cons.prems h by simp
  note ih = Cons.IH[OF run]
  have dom: "set (p # ns) \<subseteq> dom (bm_settings t)"
    using ih h by (auto simp add: dom_def split: if_splits)
  have "t' = t\<lparr>bm_settings := (\<lambda>q. map_option
               (\<lambda>h. h @ replicate (count_list (p # ns) q) (attrs (block_matcher t) q))
               (bm_settings t q))\<rparr>"
    using ih h by (auto simp add: fun_eq_iff replicate_append_same intro!: tuner.equality)
  with dom show ?case by simp
qed

lemma save_bm_state_loop_returns:
  "set ns \<subseteq> dom (bm_settings t) \<Longrightarrow> \<exists>t'. save_bm_state_loop ns t = Return () t'"
proof (induction ns arbitrary: t)
  case Nil
  then show ?case by simp
next
  case (Cons p ns)
  then obtain h where h: "bm_settings t p = Some h" by auto
  let ?t1 = "t\<lparr>bm_settings := (bm_settings t)(p \<mapsto> h @ [attrs (block_matcher t) p])\<rparr>"
  have "set ns \<subseteq> dom (bm_settings ?t1)"
    using Cons.prems by auto
  from Cons.IH[OF this] show ?case
    using h by simp
qed

lemma butlast_replicate_Suc: "butlast (replicate (Suc n) x) = replicate n x"
  by (induction n) simp_all

lemma butlast_Cons_replicate: "butlast (x # replicate n x) = replicate n x"
  by (induction n) simp_all

lemma butlast_append_Cons_replicate: "butlast (h @ x # replicate n x) = h @ replicate n x"
  by (simp add: butlast_append butlast_Cons_replicate del: butlast.simps)

lemma pop_newest_loop_result:
  "set ns \<subseteq> dom m \<Longrightarrow>
   bm_settings t = (\<lambda>q. map_option (\<lambda>h. h @ replicate (count_list ns q) (x q)) (m q)) \<Longrightarrow>
   pop_newest_loop ns t = Return () (t\<lparr>bm_settings := m\<rparr>)"
proof (induction ns arbitrary: t)
  case Nil
  then have "bm_settings t = m"
    by (simp add: fun_eq_iff option.map_ident)
  then show ?case by simp
next
  case (Cons p ns)
  from Cons.prems obtain h where h: "m p = Some h" by auto
  have cur: "bm_settings t p = Some (h @ replicate (Suc (count_list ns p)) (x p))"
    using Cons.prems(2) h by simp
  let ?t1 = "t\<lparr>bm_settings := (bm_settings t)(p \<mapsto> butlast (h @ replicate (Suc (count_list ns p)) (x p)))\<rparr>"
  have bl: "butlast (h @ replicate (Suc (count_list ns p)) (x p)) = h @ replicate (count_list ns p) (x p)"
    by (simp add: butlast_append butlast_replicate_Suc del: replicate.simps)
  have rel: "bm_settings ?t1 = (\<lambda>q. map_option (\<lambda>h. h @ replicate (count_list ns q) (x q)) (m q))"
    using Cons.prems(2) h by (auto simp add: fun_eq_iff butlast_append_Cons_replicate)
  have "pop_newest_loop ns ?t1 = Return () (?t1\<lparr>bm_settings := m\<rparr>)"
    using Cons.prems(1) by (intro Cons.IH[OF _ rel]) simp
  then show ?case
    using cur by simp
qed

section \<open>The rows of the settings report\<close>


lemma fold_update_keys:
  "fst ` set (fold (\<lambda>v d. AList.update (c v) v d) us d) = c ` set us \<union> fst ` set d"
  by (induction us arbitrary: d) (auto simp add: dom_update)

lemma fold_update_distinct:
  "distinct (map fst d) \<Longrightarrow> distinct (map fst (fold (\<lambda>v d. AList.update (c v) v d) us d))"
  by (induction us arbitrary: d) (simp_all add: distinct_update)


lemma value_frequency_keys:
  "set us = set sl \<Longrightarrow> set (map fst (value_frequency_of us sl)) = count_list sl ` set sl"
  using fold_update_keys[of "count_list sl" us "[]"]
  by (simp add: value_frequency_of_def)

lemma value_frequency_distinct: "distinct (map fst (value_frequency_of us sl))"
  by (simp add: value_frequency_of_def fold_update_distinct)




text \<open>
  The number of rows is the number of distinct counts, not of distinct values: values
  that occur equally often share one key of \<^verbatim>\<open>value_frequency\<close> (line 314), where the
  docstring has all settings reported.
\<close>

lemma report_rows_length:
  assumes enum: "set (set_list sl) = set sl"
  shows "length (report_rows set_list sl) = card (count_list sl ` set sl)"
proof -
  have "length (report_rows set_list sl) = length (map fst (value_frequency_of (set_list sl) sl))"
    by (simp add: report_rows_def Let_def)
  also have "\<dots> = card (set (map fst (value_frequency_of (set_list sl) sl)))"
    using value_frequency_distinct[of "set_list sl" sl] by (simp only: distinct_card)
  finally show ?thesis
    by (simp only: value_frequency_keys[of "set_list sl" sl, OF enum])
qed

section \<open>Updating the disparity map\<close>

lemma color_disparity_returns:
  "attrs bm ''numDisparities'' \<noteq> 1 \<Longrightarrow> \<exists>img. color_disparity X bm d = Inr img"
  by (simp add: color_disparity_def Let_def)

lemma populated_Nil_iff: "populated slots = [] \<longleftrightarrow> (\<forall>s \<in> set slots. s = None)"
  by (induction slots rule: populated.induct) simp_all

lemma populated_written: "i < length slots \<Longrightarrow> populated (slots[i := Some x]) \<noteq> []"
proof -
  assume "i < length slots"
  then have "Some x \<in> set (slots[i := Some x])"
    by (simp add: set_update_memI)
  then show ?thesis
    by (auto simp add: populated_Nil_iff)
qed

lemma get_smoothed_disparity_returns:
  "populated (last_disparities t) \<noteq> [] \<Longrightarrow> \<exists>m v. get_smoothed_disparity t = Inr (m, v)"
  by (cases "populated (last_disparities t)")
     (simp_all add: get_smoothed_disparity_def reduce_def Let_def)

lemma update_frame:
  "bm_settings (state_of (update_disparity_map_no_wait X t)) = bm_settings t
   \<and> block_matcher (state_of (update_disparity_map_no_wait X t)) = block_matcher t
   \<and> pair (state_of (update_disparity_map_no_wait X t)) = pair t
   \<and> time_smoothing_window (state_of (update_disparity_map_no_wait X t)) = time_smoothing_window t
   \<and> length (last_disparities (state_of (update_disparity_map_no_wait X t)))
       = length (last_disparities t)"
  by (simp add: update_disparity_map_no_wait_def Let_def split: sum.split prod.split)

lemma update_returns:
  assumes nd: "attrs (block_matcher t) ''numDisparities'' \<noteq> 1"
    and idx: "next_disparity_index t < length (last_disparities t)"
    and win: "0 < time_smoothing_window t"
  shows "\<exists>t' display.
           update_disparity_map_no_wait X t = Return () t'
         \<and> gui t' = gui t @ [ImShow display]
         \<and> last_disparities t'
             = (last_disparities t)[next_disparity_index t :=
                  Some (get_disparity X (block_matcher t) (pair t),
                        raw_validity (block_matcher t)
                          (get_disparity X (block_matcher t) (pair t)))]
         \<and> next_disparity_index t' = (next_disparity_index t + 1) mod time_smoothing_window t"
proof -
  let ?d = "get_disparity X (block_matcher t) (pair t)"
  let ?slots = "(last_disparities t)[next_disparity_index t :=
                  Some (?d, raw_validity (block_matcher t) ?d)]"
  let ?t2 = "t\<lparr>last_disparities := ?slots,
               next_disparity_index := (next_disparity_index t + 1) mod time_smoothing_window t\<rparr>"
  obtain colored where c: "color_disparity X (block_matcher t) ?d = Inr colored"
    using color_disparity_returns[OF nd] by blast
  have "populated (last_disparities ?t2) \<noteq> []"
    using idx by (simp add: populated_written)
  then obtain m v where g: "get_smoothed_disparity ?t2 = Inr (m, v)"
    using get_smoothed_disparity_returns by blast
  obtain colored' where c': "color_disparity X (block_matcher t) m = Inr colored'"
    using color_disparity_returns[OF nd] by blast
  show ?thesis
    using c g c' idx win
    by (cases "1 < time_smoothing_window t")
       (simp_all add: update_disparity_map_no_wait_def Let_def)
qed

lemma save_bm_state_result:
  assumes "set (parameter_names (block_matcher t)) \<subseteq> dom (bm_settings t)"
  shows "save_bm_state t = Return ()
           (t\<lparr>bm_settings := (\<lambda>q. map_option
               (\<lambda>h. h @ replicate (count_list (parameter_names (block_matcher t)) q)
                                   (attrs (block_matcher t) q))
               (bm_settings t q))\<rparr>)"
proof -
  obtain t' where r: "save_bm_state_loop (parameter_names (block_matcher t)) t = Return () t'"
    using save_bm_state_loop_returns[OF assms] by blast
  from save_bm_state_loop_result[OF r] show ?thesis
    using r by (simp add: save_bm_state_def)
qed

lemma tune_pair_history:
  assumes "set (parameter_names (block_matcher t)) \<subseteq> dom (bm_settings t)"
  shows "bm_settings (state_of (tune_pair X t new_pair wait_key))
           = (\<lambda>q. map_option
               (\<lambda>h. h @ replicate (count_list (parameter_names (block_matcher t)) q)
                                   (attrs (block_matcher t) q))
               (bm_settings t q))
       \<and> block_matcher (state_of (tune_pair X t new_pair wait_key)) = block_matcher t"
proof -
  let ?t1 = "t\<lparr>bm_settings := (\<lambda>q. map_option
               (\<lambda>h. h @ replicate (count_list (parameter_names (block_matcher t)) q)
                                   (attrs (block_matcher t) q))
               (bm_settings t q))\<rparr>"
  note f = update_frame[of X "?t1\<lparr>pair := new_pair\<rparr>"]
  show ?thesis
  proof (cases wait_key)
    case False
    then show ?thesis
      using f by (simp add: tune_pair_def save_bm_state_result[OF assms])
  next
    case True
    then show ?thesis
      using f
      by (cases "update_disparity_map_no_wait X (?t1\<lparr>pair := new_pair\<rparr>)")
         (simp_all add: tune_pair_def save_bm_state_result[OF assms]
            update_disparity_map_and_wait_def)
  qed
qed

lemma report_settings_result:
  assumes dom: "set (parameter_names (block_matcher t)) \<subseteq> dom (bm_settings t)"
    and h: "bm_settings t p = Some h"
  shows "report_settings set_list t p =
           Return (render_report p (report_rows set_list
                     (drop 1 (h @ replicate (count_list (parameter_names (block_matcher t)) p)
                                            (attrs (block_matcher t) p)))))
                  t"
proof -
  let ?M = "\<lambda>q. map_option
               (\<lambda>h. h @ replicate (count_list (parameter_names (block_matcher t)) q)
                                   (attrs (block_matcher t) q))
               (bm_settings t q)"
  let ?t1 = "t\<lparr>bm_settings := ?M\<rparr>"
  have pop: "pop_newest_loop (parameter_names (block_matcher t)) ?t1
      = Return () (?t1\<lparr>bm_settings := bm_settings t\<rparr>)"
    using dom by (intro pop_newest_loop_result) simp_all
  show ?thesis
    using pop h by (simp add: report_settings_def save_bm_state_result[OF dom] Let_def)
qed

section \<open>Facts about the concrete sessions\<close>

lemma fold_empty_histories:
  "fold (\<lambda>parameter m. m(parameter \<mapsto> [])) ns m0 q = (if q \<in> set ns then Some [] else m0 q)"
  by (induction ns arbitrary: m0) auto

lemma init_tuner_settings:
  "bm_settings (init_tuner bm pr s win) q = (if q \<in> set (parameter_names bm) then Some [] else None)"
  by (simp add: init_tuner_def Let_def fold_empty_histories)

lemma init_tuner_fields:
  "block_matcher (init_tuner bm pr s win) = bm"
  "last_disparities (init_tuner bm pr s win) = replicate win None"
  "next_disparity_index (init_tuner bm pr s win) = 0"
  "time_smoothing_window (init_tuner bm pr s win) = win"
  "show_sources (init_tuner bm pr s win) = s"
  "pair (init_tuner bm pr s win) = pr"
  by (simp_all add: init_tuner_def Let_def)

lemma set_value_frame:
  "bm_settings (state_of (set_value X t p v)) = bm_settings t
   \<and> block_matcher (state_of (set_value X t p v)) = snd (bm_setattr X (block_matcher t) p v)"
proof (cases "bm_setattr X (block_matcher t) p v")
  case (Pair r bm')
  show ?thesis
  proof (cases r)
    case None
    with Pair show ?thesis
      using update_frame[of X "t\<lparr>block_matcher := bm'\<rparr>"] by (simp add: set_value_def)
  next
    case (Some e)
    with Pair show ?thesis
      by (cases e) (simp_all add: set_value_def)
  qed
qed

lemma demo_names: "parameter_names demo_matcher = [''minDisparity'', ''numDisparities'', ''SADWindowSize'']"
  by (simp add: demo_matcher_def)

lemma demo_setattr:
  "0 \<le> v \<Longrightarrow> snd (bm_setattr demo_extern bm p v) = bm\<lparr>attrs := (attrs bm)(p := v)\<rparr>"
  by (simp add: demo_extern_def)

lemma demo_session_history: "bm_settings demo_session ''SADWindowSize'' = Some [5, 7, 9]"
  by (simp add: demo_session_def demo_tuner_def tune_pair_history set_value_frame
      init_tuner_settings init_tuner_fields demo_names demo_setattr dom_def)
     (simp add: demo_matcher_def)

section \<open>\<^verbatim>\<open>report_settings\<close>\<close>

lemmas demo_defs = demo_tuner_def demo_pair_def demo_matcher_def demo_extern_def
lemmas run_defs = tune_pair_def save_bm_state_def set_value_def update_disparity_map_no_wait_def
  update_disparity_map_and_wait_def init_tuner_def Let_def raw_validity_def validity_threshold_def
  float32_eps_def color_disparity_def clip_def to_uint8_def validity_int_of_def gray2bgr_def
  bitwise_and_def pixelwise_def concatenate_axis0_def concatenate_axis1_def zeros_def shape0_def
  shape1_def get_smoothed_disparity_def reduce_def along_axis0_def np_mean_def np_std_def

lemma demo_session_block_matcher:
  "block_matcher demo_session = demo_matcher\<lparr>attrs := (attrs demo_matcher)(''SADWindowSize'' := 9)\<rparr>"
  by (simp add: demo_session_def demo_tuner_def tune_pair_history set_value_frame
      init_tuner_settings init_tuner_fields demo_names demo_setattr dom_def)

lemma demo_session_dom:
  "set (parameter_names (block_matcher demo_session)) \<subseteq> dom (bm_settings demo_session)"
  by (simp add: demo_session_def demo_tuner_def tune_pair_history set_value_frame
      init_tuner_settings init_tuner_fields demo_names demo_setattr dom_def)

lemma demo_session_report:
  "report_settings remdups demo_session ''SADWindowSize''
     = Return (render_report ''SADWindowSize'' (report_rows remdups [7, 9, 9])) demo_session"
  using report_settings_result[OF demo_session_dom demo_session_history, of remdups]
  by (simp add: demo_session_block_matcher demo_names)

lemma demo_rows: "report_rows remdups [7, 9, 9] = [(9, 2), (7, 1)]"
  by (simp add: report_rows_def value_frequency_of_def Let_def)


text \<open>
  C4. When \<^verbatim>\<open>report_settings\<close> returns, the history of every parameter is the sequence it
  was before the call; indeed the whole tuner is as it was, so repeated calls do not grow
  the history.
\<close>

theorem report_settings_restores_history:
  assumes "report_settings set_list t p = Return rep t'"
  shows "(\<forall>q. bm_settings t' q = bm_settings t q) \<and> t' = t"
proof -
  from assms obtain t1 where save: "save_bm_state t = Return () t1"
    by (auto simp add: report_settings_def split: outcome.splits)
  note s = save_bm_state_loop_result[OF save[unfolded save_bm_state_def]]
  let ?ns = "parameter_names (block_matcher t)"
  have bm1: "block_matcher t1 = block_matcher t"
    using s by simp
  have rel: "bm_settings t1 = (\<lambda>q. map_option
               (\<lambda>h. h @ replicate (count_list ?ns q) (attrs (block_matcher t) q))
               (bm_settings t q))"
    using s by simp
  have pop: "pop_newest_loop ?ns t1 = Return () (t1\<lparr>bm_settings := bm_settings t\<rparr>)"
    using s rel by (intro pop_newest_loop_result) simp_all
  have same: "t1\<lparr>bm_settings := bm_settings t\<rparr> = t"
    using s by simp
  have "t' = t"
    using assms save pop same
    by (auto simp add: report_settings_def bm1 Let_def split: option.splits)
  then show ?thesis by simp
qed

theorem report_settings_restores_history_witness:
  "report_settings remdups demo_session ''SADWindowSize''
     = Return (render_report ''SADWindowSize'' [(9, 2), (7, 1)]) demo_session
   \<and> bm_settings demo_session ''SADWindowSize'' = Some [5, 7, 9]"
  using report_settings_restores_history[OF demo_session_report] demo_session_report
    demo_session_history demo_rows
  by simp








lemma str_nat_digit: "n < 10 \<Longrightarrow> str_nat n = [char_of (48 + n)]"
  by (simp add: str_nat.simps)


text \<open>
  What the amended statement leaves open: values that occur equally often share one key
  of \<^verbatim>\<open>value_frequency\<close> (line 314), and only the last of them in the iteration order
  keeps its row (\<open>report_rows_length\<close> counts the rows). Of 7 and 9, each chosen once,
  only 9 is reported here, and the frequencies sum to 3 over a list of 4 values.
\<close>

lemma report_rows_equal_counts:
  "report_rows remdups [7, 9, 11, 11] = [(11, 2), (9, 1)]
   \<and> sum_list (map snd (report_rows remdups [7, 9, 11, 11])) = 3"
  by (simp add: report_rows_def value_frequency_of_def Let_def)

section \<open>The first recorded value\<close>

text \<open>
  C3 fails on the code: \<^verbatim>\<open>__init__\<close> records nothing, the first entry is written by the
  first \<^verbatim>\<open>tune_pair\<close>. Here \<^verbatim>\<open>SADWindowSize\<close> is 5 when the tuner is built and is set to
  7 before the first \<^verbatim>\<open>tune_pair\<close>; the first entry of its history is 7.
\<close>

theorem first_recorded_value_is_not_default:
  "attrs (block_matcher (demo_tuner 1)) ''SADWindowSize'' = 5
   \<and> bm_settings (demo_tuner 1) ''SADWindowSize'' = Some []
   \<and> raised (set_value demo_extern (demo_tuner 1) ''SADWindowSize'' 7) = None
   \<and> raised (tune_pair demo_extern
         (state_of (set_value demo_extern (demo_tuner 1) ''SADWindowSize'' 7))
         (demo_pair 20) False) = None
   \<and> bm_settings demo_changed ''SADWindowSize'' = Some [7]"
  by (simp add: demo_changed_def demo_defs run_defs)

section \<open>\<^verbatim>\<open>_set_value\<close>\<close>

text \<open>
  C7. When the block matcher rejects the value with a bad-argument error, leaving itself
  as it was, \<^verbatim>\<open>_set_value\<close> prints the message and changes nothing else: no disparity map
  is computed, nothing is shown. When the write succeeds (and the tuner's window and
  cursor are consistent and the new \<^verbatim>\<open>numDisparities\<close> is not 1), the disparity map is
  computed from the new block matcher, stored, and shown once, and the call returns
  without waiting for a key.
\<close>

theorem set_value_rejected_or_applied:
  "(bm_setattr X (block_matcher t) parameter new_value
      = (Some (BadBlockMatcherArgumentError msg), block_matcher t)
    \<longrightarrow> set_value X t parameter new_value = Return () (t\<lparr>gui := gui t @ [Print msg]\<rparr>))
   \<and> (bm_setattr X (block_matcher t) parameter new_value = (None, bm')
      \<and> attrs bm' ''numDisparities'' \<noteq> 1
      \<and> next_disparity_index t < length (last_disparities t)
      \<and> 0 < time_smoothing_window t
    \<longrightarrow> (\<exists>t' display.
           set_value X t parameter new_value = Return () t'
         \<and> t' = state_of (update_disparity_map_no_wait X (t\<lparr>block_matcher := bm'\<rparr>))
         \<and> block_matcher t' = bm'
         \<and> gui t' = gui t @ [ImShow display]
         \<and> last_disparities t'
             = (last_disparities t)[next_disparity_index t :=
                  Some (get_disparity X bm' (pair t),
                        raw_validity bm' (get_disparity X bm' (pair t)))]))"
proof (intro conjI impI)
  assume r: "bm_setattr X (block_matcher t) parameter new_value
      = (Some (BadBlockMatcherArgumentError msg), block_matcher t)"
  have "t\<lparr>block_matcher := block_matcher t, gui := gui t @ [Print msg]\<rparr>
      = t\<lparr>gui := gui t @ [Print msg]\<rparr>"
    by simp
  then show "set_value X t parameter new_value = Return () (t\<lparr>gui := gui t @ [Print msg]\<rparr>)"
    using r by (simp add: set_value_def)
next
  assume a: "bm_setattr X (block_matcher t) parameter new_value = (None, bm')
      \<and> attrs bm' ''numDisparities'' \<noteq> 1
      \<and> next_disparity_index t < length (last_disparities t)
      \<and> 0 < time_smoothing_window t"
  let ?t0 = "t\<lparr>block_matcher := bm'\<rparr>"
  have s: "set_value X t parameter new_value = update_disparity_map_no_wait X ?t0"
    using a by (simp add: set_value_def)
  obtain t' display where u: "update_disparity_map_no_wait X ?t0 = Return () t'"
    and g: "gui t' = gui ?t0 @ [ImShow display]"
    and l: "last_disparities t'
             = (last_disparities ?t0)[next_disparity_index ?t0 :=
                  Some (get_disparity X (block_matcher ?t0) (pair ?t0),
                        raw_validity (block_matcher ?t0)
                          (get_disparity X (block_matcher ?t0) (pair ?t0)))]"
    using update_returns[of ?t0 X] a by auto
  have b: "block_matcher t' = bm'"
    using update_frame[of X ?t0] u by simp
  show "\<exists>t' display.
           set_value X t parameter new_value = Return () t'
         \<and> t' = state_of (update_disparity_map_no_wait X (t\<lparr>block_matcher := bm'\<rparr>))
         \<and> block_matcher t' = bm'
         \<and> gui t' = gui t @ [ImShow display]
         \<and> last_disparities t'
             = (last_disparities t)[next_disparity_index t :=
                  Some (get_disparity X bm' (pair t),
                        raw_validity bm' (get_disparity X bm' (pair t)))]"
    using s u g l b by (intro exI[of _ t'] exI[of _ display]) simp
qed

theorem set_value_rejected_or_applied_witness:
  "bm_setattr demo_extern (block_matcher (demo_tuner 1)) ''SADWindowSize'' (- 3)
     = (Some (BadBlockMatcherArgumentError ''negative value''), block_matcher (demo_tuner 1))
   \<and> set_value demo_extern (demo_tuner 1) ''SADWindowSize'' (- 3)
     = Return () ((demo_tuner 1)\<lparr>gui := gui (demo_tuner 1) @ [Print ''negative value'']\<rparr>)
   \<and> bm_setattr demo_extern (block_matcher (demo_tuner 1)) ''SADWindowSize'' 7
     = (None, demo_matcher\<lparr>attrs := (attrs demo_matcher)(''SADWindowSize'' := 7)\<rparr>)
   \<and> raised (set_value demo_extern (demo_tuner 1) ''SADWindowSize'' 7) = None
   \<and> gui (state_of (set_value demo_extern (demo_tuner 1) ''SADWindowSize'' 7))
     = gui (demo_tuner 1) @ [ImShow [[(15, 240, 255)]]]"
proof -
  have rej: "bm_setattr demo_extern (block_matcher (demo_tuner 1)) ''SADWindowSize'' (- 3)
     = (Some (BadBlockMatcherArgumentError ''negative value''), block_matcher (demo_tuner 1))"
    by (simp add: demo_extern_def)
  have acc: "bm_setattr demo_extern (block_matcher (demo_tuner 1)) ''SADWindowSize'' 7
     = (None, demo_matcher\<lparr>attrs := (attrs demo_matcher)(''SADWindowSize'' := 7)\<rparr>)"
    by (simp add: demo_extern_def demo_tuner_def init_tuner_fields)
  have pre: "attrs (demo_matcher\<lparr>attrs := (attrs demo_matcher)(''SADWindowSize'' := 7)\<rparr>)
               ''numDisparities'' \<noteq> 1
      \<and> next_disparity_index (demo_tuner 1) < length (last_disparities (demo_tuner 1))
      \<and> 0 < time_smoothing_window (demo_tuner 1)"
    by (simp add: demo_tuner_def init_tuner_fields demo_matcher_def)
  have one: "set_value demo_extern (demo_tuner 1) ''SADWindowSize'' (- 3)
     = Return () ((demo_tuner 1)\<lparr>gui := gui (demo_tuner 1) @ [Print ''negative value'']\<rparr>)"
    using set_value_rejected_or_applied[of demo_extern "demo_tuner 1" "''SADWindowSize''" "- 3"
        "''negative value''"] rej by blast
  have two: "\<exists>t' display.
           set_value demo_extern (demo_tuner 1) ''SADWindowSize'' 7 = Return () t'
         \<and> gui t' = gui (demo_tuner 1) @ [ImShow display]"
    using set_value_rejected_or_applied[of demo_extern "demo_tuner 1" "''SADWindowSize''" 7 _
        "demo_matcher\<lparr>attrs := (attrs demo_matcher)(''SADWindowSize'' := 7)\<rparr>"] acc pre
    by blast
  have shown: "gui (state_of (set_value demo_extern (demo_tuner 1) ''SADWindowSize'' 7))
     = gui (demo_tuner 1) @ [ImShow [[(15, 240, 255)]]]"
    by (simp add: demo_defs run_defs)
  from two have "raised (set_value demo_extern (demo_tuner 1) ''SADWindowSize'' 7) = None"
    by auto
  then show ?thesis
    using rej one acc shown by simp
qed

section \<open>The mask of the smoothed picture\<close>

lemma replicate_2: "replicate 2 x = [x, x]"
  by (simp add: numeral_2_eq_2)

lemma sqrt_400: "sqrt 400 = 20"
proof -
  have "sqrt (20\<^sup>2) = 20" by (simp only: real_sqrt_abs abs_numeral)
  then show ?thesis by simp
qed

text \<open>
  C8 fails on the code: line 249 builds the mask of the smoothed picture from
  \<^verbatim>\<open>validity_bool\<close>, the raw mask of the latest frame, not from the mask that
  \<^verbatim>\<open>_get_smoothed_disparity\<close> returned. With a window of 2 and disparities 20 and 60 at
  the one pixel, the smoothing step marks the pixel invalid (deviation 20), and the
  smoothed picture, the second row of what is shown, still has the colour of disparity
  40 there rather than the background.
\<close>

theorem smoothed_picture_masked_by_raw_validity:
  "raised (tune_pair demo_extern (demo_tuner 2) (demo_pair 20) False) = None
   \<and> raised (tune_pair demo_extern
        (state_of (tune_pair demo_extern (demo_tuner 2) (demo_pair 20) False))
        (demo_pair 60) False) = None
   \<and> disparity demo_smoothed = Some [[40]]
   \<and> validity demo_smoothed = Some [[False]]
   \<and> last (gui demo_smoothed) = ImShow [[(175, 80, 255)], [(95, 160, 255)]]
   \<and> colormap_jet demo_extern 95 = (95, 160, 255)"
  by (simp add: demo_smoothed_def demo_defs run_defs sqrt_400 replicate_2)

section \<open>The calibration pipeline\<close>

lemma length_file_pairs: "even (length files) \<Longrightarrow> 2 * length (file_pairs files) = length files"
  by (induction files rule: file_pairs.induct) simp_all

lemma read_input_files_result:
  "even (length files) \<Longrightarrow> 2 * k + length files = maxval \<Longrightarrow>
   read_input_files E maxval files cal out =
     Return ()
       \<lparr> remaining_files = [],
         the_calibrator =
           Some (cal\<lparr>observations :=
                   observations cal
                   @ filter (chessboard_found E) (map (read_pair E) (file_pairs files))\<rparr>),
         events =
           out @ concat (map (\<lambda>(i, p).
                    (if chessboard_found E (read_pair E p) then []
                     else [CPrint (''Error with '' @ fst p @ '','' @ snd p)])
                    @ [ProgressUpdate (2 * (i + 1))])
                  (enumerate k (file_pairs files))) \<rparr>"
proof (induction files arbitrary: k cal out rule: file_pairs.induct)
  case (1 left right rest)
  have ev: "even (length rest)" and k': "2 * Suc k + length rest = maxval"
    using "1.prems" by simp_all
  have upd: "maxval - length rest = 2 * (k + 1)"
    using k' by simp
  show ?case
  proof (cases "chessboard_found E (imread E left, imread E right)")
    case True
    then show ?thesis
      using "1.IH"[OF ev k'] upd
      by (simp add: add_corners_def read_pair_def)
  next
    case False
    then show ?thesis
      using "1.IH"[OF ev k'] upd
      by (simp add: add_corners_def read_pair_def)
  qed
qed simp_all


text \<open>
  C6. For every even, non-empty list of input files whose first file can be read,
  \<^verbatim>\<open>calibrate_folder\<close> goes through every pair: a pair on which \<^verbatim>\<open>add_corners\<close> raises
  \<open>ChessboardNotFoundError\<close> is reported with one line and skipped, the other pairs are
  the calibrator's observations, in order, and after the loop \<^verbatim>\<open>calibrate_cameras\<close> is
  called; when that returns, \<^verbatim>\<open>check_calibration\<close> is called and the calibration is
  exported. Observations and reported failures add up to the number of pairs.
\<close>

theorem calibrate_folder_skips_failures:
  assumes files: "input_files a = first # others"
    and ev: "even (length (input_files a))"
    and img: "imread E first = Some img"
    and cal: "calibrate_cameras E
                ((StereoCalibrator (rows a) (columns a) (square_size a) (shape1 img, shape0 img))
                   \<lparr>observations :=
                      filter (chessboard_found E)
                        (map (read_pair E) (file_pairs (input_files a)))\<rparr>)
              = Inr calibration"
  shows "\<exists>r avg_error ocv_error.
           calibrate_folder E a = Return () r
         \<and> remaining_files r = []
         \<and> the_calibrator r
             = Some ((StereoCalibrator (rows a) (columns a) (square_size a)
                        (shape1 img, shape0 img))
                      \<lparr>observations :=
                         filter (chessboard_found E)
                           (map (read_pair E) (file_pairs (input_files a)))\<rparr>)
         \<and> events r
             = [CPrint ''Reading input files...'', ProgressStart (length (input_files a))]
               @ concat (map (\<lambda>(i, p).
                    (if chessboard_found E (read_pair E p) then []
                     else [CPrint (''Error with '' @ fst p @ '','' @ snd p)])
                    @ [ProgressUpdate (2 * (i + 1))])
                  (enumerate 0 (file_pairs (input_files a))))
               @ [ProgressFinish,
                  CPrint ''Calibrating cameras. This can take a while.'',
                  CallCalibrateCameras,
                  CallCheckCalibration,
                  PrintErrors avg_error ocv_error,
                  Export calibration (output_folder a) avg_error ocv_error]
         \<and> length (filter (chessboard_found E) (map (read_pair E) (file_pairs (input_files a))))
             + length (filter (\<lambda>p. \<not> chessboard_found E (read_pair E p))
                         (file_pairs (input_files a)))
             = length (input_files a) div 2"
proof -
  let ?cal0 = "StereoCalibrator (rows a) (columns a) (square_size a) (shape1 img, shape0 img)"
  let ?good = "filter (chessboard_found E) (map (read_pair E) (file_pairs (input_files a)))"
  let ?loop = "concat (map (\<lambda>(i, p).
                    (if chessboard_found E (read_pair E p) then []
                     else [CPrint (''Error with '' @ fst p @ '','' @ snd p)])
                    @ [ProgressUpdate (2 * (i + 1))])
                  (enumerate 0 (file_pairs (input_files a))))"
  let ?out0 = "[CPrint ''Reading input files...'', ProgressStart (length (input_files a))]"
  have obs0: "observations ?cal0 = []"
    by (simp add: StereoCalibrator_def)
  have loop: "read_input_files E (length (input_files a)) (input_files a) ?cal0 ?out0 =
     Return ()
       \<lparr> remaining_files = [],
         the_calibrator = Some (?cal0\<lparr>observations := ?good\<rparr>),
         events = ?out0 @ ?loop \<rparr>"
    using read_input_files_result[OF ev, of 0 "length (input_files a)" E ?cal0 ?out0]
    by (simp add: obs0)
  obtain avg_error ocv_error where chk:
    "check_calibration E (?cal0\<lparr>observations := ?good\<rparr>) calibration = (avg_error, ocv_error)"
    by (cases "check_calibration E (?cal0\<lparr>observations := ?good\<rparr>) calibration")
  have run: "calibrate_folder E a = Return ()
       \<lparr> remaining_files = [],
         the_calibrator = Some (?cal0\<lparr>observations := ?good\<rparr>),
         events = ?out0 @ ?loop
               @ [ProgressFinish,
                  CPrint ''Calibrating cameras. This can take a while.'',
                  CallCalibrateCameras,
                  CallCheckCalibration,
                  PrintErrors avg_error ocv_error,
                  Export calibration (output_folder a) avg_error ocv_error] \<rparr>"
    unfolding calibrate_folder_def files[symmetric]
    using files img cal chk loop
    by (simp add: Let_def del: read_input_files.simps)
  have "length ?good = length (filter (\<lambda>p. chessboard_found E (read_pair E p))
                                  (file_pairs (input_files a)))"
    by (simp add: filter_map comp_def)
  then have count: "length ?good
      + length (filter (\<lambda>p. \<not> chessboard_found E (read_pair E p)) (file_pairs (input_files a)))
      = length (file_pairs (input_files a))"
    by (simp add: sum_length_filter_compl)
  have "length (file_pairs (input_files a)) = length (input_files a) div 2"
    using length_file_pairs[OF ev] by simp
  with count run show ?thesis
    by simp
qed


theorem calibrate_folder_skips_failures_witness:
  "even (length (input_files demo_args))
   \<and> imread demo_env ''left01.png'' = Some [[(255, 255, 255)]]
   \<and> \<not> chessboard_found demo_env (read_pair demo_env (''left02.png'', ''right02.png''))
   \<and> raised (calibrate_folder demo_env demo_args) = None
   \<and> length (observations (the (the_calibrator (state_of (calibrate_folder demo_env demo_args)))))
       = 3
   \<and> events (state_of (calibrate_folder demo_env demo_args))
       = [CPrint ''Reading input files...'', ProgressStart 8,
          ProgressUpdate 2,
          CPrint ''Error with left02.png,right02.png'', ProgressUpdate 4,
          ProgressUpdate 6,
          ProgressUpdate 8,
          ProgressFinish,
          CPrint ''Calibrating cameras. This can take a while.'',
          CallCalibrateCameras,
          CallCheckCalibration,
          PrintErrors (1 / 2) (1 / 4),
          Export 3 ''out'' (1 / 2) (1 / 4)]"
proof -
  have files: "input_files demo_args
      = ''left01.png'' # [''right01.png'', ''left02.png'', ''right02.png'',
                          ''left03.png'', ''right03.png'', ''left04.png'', ''right04.png'']"
    by (simp add: demo_args_def)
  have ev: "even (length (input_files demo_args))"
    by (simp add: demo_args_def)
  have img: "imread demo_env ''left01.png'' = Some [[(255, 255, 255)]]"
    by (simp add: demo_env_def)
  have bad: "\<not> chessboard_found demo_env (read_pair demo_env (''left02.png'', ''right02.png''))"
    by (simp add: demo_env_def read_pair_def)
  have good: "filter (chessboard_found demo_env)
                (map (read_pair demo_env) (file_pairs (input_files demo_args)))
      = replicate 3 (Some [[(255, 255, 255)]], Some [[(255, 255, 255)]])"
    by (simp add: demo_args_def demo_env_def read_pair_def numeral_3_eq_3)
  have cal: "calibrate_cameras demo_env
                ((StereoCalibrator (rows demo_args) (columns demo_args) (square_size demo_args)
                    (shape1 [[(255, 255, 255)]], shape0 [[(255, 255, 255)]]))
                   \<lparr>observations :=
                      filter (chessboard_found demo_env)
                        (map (read_pair demo_env) (file_pairs (input_files demo_args)))\<rparr>)
              = Inr 3"
    unfolding good by (simp add: demo_env_def)
  obtain r where
    run: "calibrate_folder demo_env demo_args = Return () r"
    and c: "the_calibrator r
             = Some ((StereoCalibrator (rows demo_args) (columns demo_args)
                        (square_size demo_args)
                        (shape1 ([[(255, 255, 255)]] :: image),
                         shape0 ([[(255, 255, 255)]] :: image)))
                      \<lparr>observations :=
                         filter (chessboard_found demo_env)
                           (map (read_pair demo_env) (file_pairs (input_files demo_args)))\<rparr>)"
    using calibrate_folder_skips_failures[OF files ev img cal] by (elim exE conjE)
  have obs: "length (observations (the (the_calibrator r))) = 3"
    unfolding c good by simp
  have shown: "events (state_of (calibrate_folder demo_env demo_args))
       = [CPrint ''Reading input files...'', ProgressStart 8,
          ProgressUpdate 2,
          CPrint ''Error with left02.png,right02.png'', ProgressUpdate 4,
          ProgressUpdate 6,
          ProgressUpdate 8,
          ProgressFinish,
          CPrint ''Calibrating cameras. This can take a while.'',
          CallCalibrateCameras,
          CallCheckCalibration,
          PrintErrors (1 / 2) (1 / 4),
          Export 3 ''out'' (1 / 2) (1 / 4)]"
    by (simp add: calibrate_folder_def demo_args_def demo_env_def add_corners_def
        StereoCalibrator_def Let_def)
  show ?thesis
    using ev img bad run obs shown by simp
qed

end
